theory Spec2Isabelle
  imports Main "HOL-Library.Word"
begin

section \<open>Schedule support for the TRV: Arduino/V0p2\_Main/Schedule.cpp\<close>

text \<open>
  The file keeps one compressed start time per schedule slot in EEPROM, one byte each,
  and derives from it the on and off times of a daily WARM period. The three queries
  \<open>isAnySimpleScheduleSet\<close>, \<open>isAnyScheduleOnWARMNow\<close> and
  \<open>isAnyScheduleOnWARMSoon\<close> run over all slots.

  The C++ types are kept with their widths: \<open>uint8_t\<close> is an 8-bit word and
  \<open>uint_least16_t\<close>, which is \<open>uint16_t\<close> on the AVR target, a 16-bit word.
  Sums and differences of \<open>uint_least16_t\<close> values wrap modulo \<open>2 ^ 16\<close>; an
  initialisation of a \<open>uint8_t\<close> from an \<open>int\<close> expression keeps the low 8 bits.
\<close>

type_synonym uint8_t = "8 word"
type_synonym uint_least16_t = "16 word"

subsection \<open>Build configuration\<close>

text \<open>
  Schedule.cpp uses macros that Schedule.h, Control.h and the board configuration define;
  none of these headers is part of the source at hand, so the macros are the fields of a
  record and every function below takes that record.
  \<^item> \<open>SIMPLE_SCHEDULE_GRANULARITY_MINS\<close>, \<open>LEARNED_ON_PERIOD_M\<close> and
    \<open>LEARNED_ON_PERIOD_COMFORT_M\<close> are non-negative integer literals (minutes).
  \<^item> \<open>MAX_SIMPLE_SCHEDULES\<close> is the slot count. Slot numbers are \<open>uint8_t\<close> in every
    signature and loop counter of the file, and so is the count here.
  \<^item> \<open>V0P2BASE_EE_START_SIMPLE_SCHEDULE0_ON\<close> is the EEPROM address of slot 0.
  \<^item> \<open>LEARN_BUTTON_AVAILABLE\<close> tells whether that macro is defined
    (\<open>#ifdef\<close> in \<open>getSimpleScheduleOn\<close>).
\<close>

record config =
  SIMPLE_SCHEDULE_GRANULARITY_MINS :: nat
  MAX_SIMPLE_SCHEDULES :: uint8_t
  LEARNED_ON_PERIOD_M :: nat
  LEARNED_ON_PERIOD_COMFORT_M :: nat
  V0P2BASE_EE_START_SIMPLE_SCHEDULE0_ON :: nat
  LEARN_BUTTON_AVAILABLE :: bool

text \<open>
  Modelled from the spec: \<open>OTV0P2BASE::MINS_PER_DAY\<close> is declared in the OTV0P2BASE
  library, not in Schedule.cpp. The spec reduces times modulo 1440 and Schedule.cpp
  documents the times as minutes after midnight in [0,1439].
\<close>

definition MINS_PER_DAY :: nat where
  "MINS_PER_DAY = 1440"

text \<open>
  The values the collaborators outside Schedule.cpp return at the time of a call: the
  clock (\<open>OTV0P2BASE::getMinutesSinceMidnightLT\<close>) and the comfort/eco policy of
  Control.h (\<open>getWARMTargetC\<close>, \<open>isEcoTemperature\<close>, \<open>isComfortTemperature\<close>).
\<close>

record env =
  getMinutesSinceMidnightLT :: uint_least16_t
  getWARMTargetC :: uint8_t
  isEcoTemperature :: "uint8_t \<Rightarrow> bool"
  isComfortTemperature :: "uint8_t \<Rightarrow> bool"

subsection \<open>State: EEPROM and the unit-test override\<close>

text \<open>
  The enumeration \<open>_TEST_schedule_override\<close> of Schedule.h; Schedule.cpp names the
  values \<open>_soUT_off\<close>, \<open>_soUT_soon\<close> and \<open>_soUT_now\<close> and documents 0, the default,
  as no override. A build without \<open>UNIT_TESTS\<close> behaves as \<open>soUT_normal\<close>.
\<close>

datatype TEST_schedule_override = soUT_normal | soUT_off | soUT_soon | soUT_now

record state =
  eeprom :: "nat \<Rightarrow> uint8_t"
  soUT_override :: TEST_schedule_override

definition TEST_set_schedule_override :: "TEST_schedule_override \<Rightarrow> state \<Rightarrow> state" where
  "TEST_set_schedule_override override st = st\<lparr>soUT_override := override\<rparr>"

text \<open>
  Modelled from the spec: the storage primitives \<open>eeprom_read_byte\<close> (avr-libc),
  \<open>OTV0P2BASE::eeprom_smart_update_byte\<close> and \<open>OTV0P2BASE::eeprom_smart_erase_byte\<close>
  are not in Schedule.cpp. The spec gives them as \<open>readByte(address)\<close>, a write that
  happens only if the value differs, and an erase that restores the unprogrammed
  sentinel and is skipped when the byte is already unprogrammed. An erased EEPROM byte
  reads \<open>0xFF\<close>.
\<close>

definition eeprom_read_byte :: "state \<Rightarrow> nat \<Rightarrow> uint8_t" where
  "eeprom_read_byte st p = eeprom st p"

definition eeprom_smart_update_byte :: "nat \<Rightarrow> uint8_t \<Rightarrow> state \<Rightarrow> state" where
  "eeprom_smart_update_byte p v st =
     (if eeprom st p = v then st else st\<lparr>eeprom := (eeprom st)(p := v)\<rparr>)"

definition eeprom_smart_erase_byte :: "nat \<Rightarrow> state \<Rightarrow> state" where
  "eeprom_smart_erase_byte p st =
     (if eeprom st p = 0xFF then st else st\<lparr>eeprom := (eeprom st)(p := 0xFF)\<rparr>)"

subsection \<open>Derived constants\<close>

text \<open>
  \<open>static const uint8_t MAX_COMPRESSED_MINS_AFTER_MIDNIGHT =
     ((OTV0P2BASE::MINS_PER_DAY / SIMPLE_SCHEDULE_GRANULARITY_MINS) - 1);\<close>
  The subtraction is done on integers and the result cut to 8 bits.
\<close>

definition MAX_COMPRESSED_MINS_AFTER_MIDNIGHT :: "config \<Rightarrow> uint8_t" where
  "MAX_COMPRESSED_MINS_AFTER_MIDNIGHT cfg =
     word_of_int (int (MINS_PER_DAY div SIMPLE_SCHEDULE_GRANULARITY_MINS cfg) - 1)"

text \<open>
  \<open>onTime()\<close>: the preprocessor picks the first branch when the two periods are equal;
  otherwise the on time follows the current WARM target in three steps.
\<close>

definition onTime :: "config \<Rightarrow> env \<Rightarrow> uint8_t" where
  "onTime cfg ev =
     (if LEARNED_ON_PERIOD_M cfg = LEARNED_ON_PERIOD_COMFORT_M cfg
      then word_of_nat (LEARNED_ON_PERIOD_M cfg)
      else
        let wt = getWARMTargetC ev in
        if isEcoTemperature ev wt then word_of_nat (LEARNED_ON_PERIOD_M cfg)
        else if isComfortTemperature ev wt then word_of_nat (LEARNED_ON_PERIOD_COMFORT_M cfg)
        else word_of_nat ((LEARNED_ON_PERIOD_M cfg + LEARNED_ON_PERIOD_COMFORT_M cfg) div 2))"

text \<open>
  \<open>const uint8_t PREWARM_MINS =
     max(30, (SIMPLE_SCHEDULE_GRANULARITY_MINS + (LEARNED_ON_PERIOD_M/2)));\<close>
\<close>

definition PREWARM_MINS :: "config \<Rightarrow> uint8_t" where
  "PREWARM_MINS cfg =
     word_of_nat (max 30 (SIMPLE_SCHEDULE_GRANULARITY_MINS cfg + LEARNED_ON_PERIOD_M cfg div 2))"

text \<open>
  \<open>const uint8_t PREPREWARM_MINS = (3*(PREWARM_MINS/2));\<close>
  The byte is promoted to \<open>int\<close>, halved, tripled, and the product cut to 8 bits.
\<close>

definition PREPREWARM_MINS :: "config \<Rightarrow> uint8_t" where
  "PREPREWARM_MINS cfg = word_of_nat (3 * (unat (PREWARM_MINS cfg) div 2))"

subsection \<open>Reading, setting and clearing one schedule\<close>

text \<open>The value \<open>~0\<close> returned as \<open>uint_least16_t\<close>: all 16 bits set.\<close>

definition invalid_time :: uint_least16_t where
  "invalid_time = 0xFFFF"

definition schedule_address :: "config \<Rightarrow> uint8_t \<Rightarrow> nat" where
  "schedule_address cfg which = V0P2BASE_EE_START_SIMPLE_SCHEDULE0_ON cfg + unat which"

text \<open>
  \<open>getSimpleScheduleOn\<close>: the product of the granularity and the stored byte is
  computed on \<open>int\<close> and stored into a \<open>uint_least16_t\<close>, which keeps its low 16
  bits; \<open>windBackM\<close> is a byte, widened for the comparison and the subtraction. The
  block that winds the start time back is compiled only with \<open>LEARN_BUTTON_AVAILABLE\<close>.
\<close>

definition getSimpleScheduleOn :: "config \<Rightarrow> state \<Rightarrow> uint8_t \<Rightarrow> uint_least16_t" where
  "getSimpleScheduleOn cfg st which =
     (if which \<ge> MAX_SIMPLE_SCHEDULES cfg then invalid_time
      else
        let startMM = eeprom_read_byte st (schedule_address cfg which) in
        if startMM > MAX_COMPRESSED_MINS_AFTER_MIDNIGHT cfg then invalid_time
        else
          let startTime = (word_of_nat (SIMPLE_SCHEDULE_GRANULARITY_MINS cfg * unat startMM)
                             :: uint_least16_t) in
          if LEARN_BUTTON_AVAILABLE cfg
          then
            let windBackM = PREWARM_MINS cfg;
                startTime = (if ucast windBackM > startTime
                             then startTime + word_of_nat MINS_PER_DAY else startTime)
            in startTime - ucast windBackM
          else startTime)"

text \<open>
  \<open>getSimpleScheduleOff\<close>: the two bytes \<open>PREWARM_MINS\<close> and \<open>onTime()\<close> are widened
  and added to the start time in 16 bits; one day is subtracted at most once.
\<close>

definition getSimpleScheduleOff :: "config \<Rightarrow> env \<Rightarrow> state \<Rightarrow> uint8_t \<Rightarrow> uint_least16_t" where
  "getSimpleScheduleOff cfg ev st which =
     (let startMins = getSimpleScheduleOn cfg st which in
      if startMins = invalid_time then invalid_time
      else
        let endTime = startMins + ucast (PREWARM_MINS cfg) + ucast (onTime cfg ev) in
        if endTime \<ge> word_of_nat MINS_PER_DAY then endTime - word_of_nat MINS_PER_DAY
        else endTime)"

text \<open>
  \<open>setSimpleSchedule\<close> returns its \<open>bool\<close> together with the state it leaves; the
  quotient is stored into a \<open>uint8_t\<close>, which keeps its low 8 bits.
  \<open>clearSimpleSchedule\<close> returns the state it leaves.
\<close>

definition setSimpleSchedule :: "config \<Rightarrow> uint_least16_t \<Rightarrow> uint8_t \<Rightarrow> state \<Rightarrow> bool \<times> state" where
  "setSimpleSchedule cfg startMinutesSinceMidnightLT which st =
     (if which \<ge> MAX_SIMPLE_SCHEDULES cfg then (False, st)
      else if startMinutesSinceMidnightLT \<ge> word_of_nat MINS_PER_DAY then (False, st)
      else
        let startMM = (word_of_nat (unat startMinutesSinceMidnightLT
                                      div SIMPLE_SCHEDULE_GRANULARITY_MINS cfg) :: uint8_t)
        in (True, eeprom_smart_update_byte (schedule_address cfg which) startMM st))"

definition clearSimpleSchedule :: "config \<Rightarrow> uint8_t \<Rightarrow> state \<Rightarrow> state" where
  "clearSimpleSchedule cfg which st =
     (if which \<ge> MAX_SIMPLE_SCHEDULES cfg then st
      else eeprom_smart_erase_byte (schedule_address cfg which) st)"

subsection \<open>Queries over all schedules\<close>

text \<open>
  Each \<open>for(uint8_t which = 0; which < MAX_SIMPLE_SCHEDULES; ++which)\<close> loop is a
  recursive function of the counter. The counter stays below the 8-bit bound, so the
  increment never wraps and the distance to the bound decreases: each loop terminates.
\<close>

function isAnySimpleScheduleSet_loop :: "config \<Rightarrow> state \<Rightarrow> uint8_t \<Rightarrow> bool" where
  "isAnySimpleScheduleSet_loop cfg st which =
     (if which < MAX_SIMPLE_SCHEDULES cfg
      then
        if eeprom_read_byte st (schedule_address cfg which)
             \<le> MAX_COMPRESSED_MINS_AFTER_MIDNIGHT cfg
        then True
        else isAnySimpleScheduleSet_loop cfg st (which + 1)
      else False)"
  by pat_completeness auto
termination
proof (relation "measure (\<lambda>(cfg, st, which). unat (MAX_SIMPLE_SCHEDULES cfg) - unat which)")
  fix cfg :: config and st :: state and which :: uint8_t
  assume "which < MAX_SIMPLE_SCHEDULES cfg"
  then have below: "unat which < unat (MAX_SIMPLE_SCHEDULES cfg)"
    by (simp add: word_less_nat_alt)
  moreover have "unat (MAX_SIMPLE_SCHEDULES cfg) < 2 ^ LENGTH(8)"
    by (rule unsigned_less)
  ultimately have "unat (which + 1) = unat which + 1"
    by (simp add: unat_word_ariths)
  with below
  show "((cfg, st, which + 1), (cfg, st, which))
          \<in> measure (\<lambda>(cfg, st, which). unat (MAX_SIMPLE_SCHEDULES cfg) - unat which)"
    by simp
qed simp

definition isAnySimpleScheduleSet :: "config \<Rightarrow> state \<Rightarrow> bool" where
  "isAnySimpleScheduleSet cfg st =
     (case soUT_override st of
        soUT_off \<Rightarrow> False
      | soUT_soon \<Rightarrow> True
      | soUT_now \<Rightarrow> True
      | soUT_normal \<Rightarrow> isAnySimpleScheduleSet_loop cfg st 0)"

function isAnyScheduleOnWARMNow_loop ::
  "config \<Rightarrow> env \<Rightarrow> state \<Rightarrow> uint_least16_t \<Rightarrow> uint8_t \<Rightarrow> bool" where
  "isAnyScheduleOnWARMNow_loop cfg ev st mm which =
     (if which < MAX_SIMPLE_SCHEDULES cfg
      then
        let s = getSimpleScheduleOn cfg st which in
        if mm < s then isAnyScheduleOnWARMNow_loop cfg ev st mm (which + 1)
        else
          let e = getSimpleScheduleOff cfg ev st which;
              e = (if e < s then e + word_of_nat MINS_PER_DAY else e)
          in if mm < e then True
             else isAnyScheduleOnWARMNow_loop cfg ev st mm (which + 1)
      else False)"
  by pat_completeness auto
termination
proof (relation "measure (\<lambda>(cfg, ev, st, mm, which).
                   unat (MAX_SIMPLE_SCHEDULES cfg) - unat which)")
  fix cfg :: config and ev :: env and st :: state and mm :: uint_least16_t and which :: uint8_t
  assume "which < MAX_SIMPLE_SCHEDULES cfg"
  then have below: "unat which < unat (MAX_SIMPLE_SCHEDULES cfg)"
    by (simp add: word_less_nat_alt)
  moreover have "unat (MAX_SIMPLE_SCHEDULES cfg) < 2 ^ LENGTH(8)"
    by (rule unsigned_less)
  ultimately have "unat (which + 1) = unat which + 1"
    by (simp add: unat_word_ariths)
  with below
  have "((cfg, ev, st, mm, which + 1), (cfg, ev, st, mm, which))
          \<in> measure (\<lambda>(cfg, ev, st, mm, which).
                unat (MAX_SIMPLE_SCHEDULES cfg) - unat which)"
    by simp
  then show "((cfg, ev, st, mm, which + 1), (cfg, ev, st, mm, which))
          \<in> measure (\<lambda>(cfg, ev, st, mm, which).
                unat (MAX_SIMPLE_SCHEDULES cfg) - unat which)"
    and "((cfg, ev, st, mm, which + 1), (cfg, ev, st, mm, which))
          \<in> measure (\<lambda>(cfg, ev, st, mm, which).
                unat (MAX_SIMPLE_SCHEDULES cfg) - unat which)"
    by simp_all
qed simp

definition isAnyScheduleOnWARMNow :: "config \<Rightarrow> env \<Rightarrow> state \<Rightarrow> bool" where
  "isAnyScheduleOnWARMNow cfg ev st =
     (case soUT_override st of
        soUT_off \<Rightarrow> False
      | soUT_soon \<Rightarrow> False
      | soUT_now \<Rightarrow> True
      | soUT_normal \<Rightarrow>
          let mm = getMinutesSinceMidnightLT ev
          in isAnyScheduleOnWARMNow_loop cfg ev st mm 0)"

function isAnyScheduleOnWARMSoon_loop ::
  "config \<Rightarrow> env \<Rightarrow> state \<Rightarrow> uint_least16_t \<Rightarrow> uint8_t \<Rightarrow> bool" where
  "isAnyScheduleOnWARMSoon_loop cfg ev st mm which =
     (if which < MAX_SIMPLE_SCHEDULES cfg
      then
        let s = getSimpleScheduleOn cfg st which in
        if mm < s then isAnyScheduleOnWARMSoon_loop cfg ev st mm (which + 1)
        else
          let e = getSimpleScheduleOff cfg ev st which;
              e = (if e < s then e + word_of_nat MINS_PER_DAY else e)
          in if mm < e then True
             else isAnyScheduleOnWARMSoon_loop cfg ev st mm (which + 1)
      else False)"
  by pat_completeness auto
termination
proof (relation "measure (\<lambda>(cfg, ev, st, mm, which).
                   unat (MAX_SIMPLE_SCHEDULES cfg) - unat which)")
  fix cfg :: config and ev :: env and st :: state and mm :: uint_least16_t and which :: uint8_t
  assume "which < MAX_SIMPLE_SCHEDULES cfg"
  then have below: "unat which < unat (MAX_SIMPLE_SCHEDULES cfg)"
    by (simp add: word_less_nat_alt)
  moreover have "unat (MAX_SIMPLE_SCHEDULES cfg) < 2 ^ LENGTH(8)"
    by (rule unsigned_less)
  ultimately have "unat (which + 1) = unat which + 1"
    by (simp add: unat_word_ariths)
  with below
  have "((cfg, ev, st, mm, which + 1), (cfg, ev, st, mm, which))
          \<in> measure (\<lambda>(cfg, ev, st, mm, which).
                unat (MAX_SIMPLE_SCHEDULES cfg) - unat which)"
    by simp
  then show "((cfg, ev, st, mm, which + 1), (cfg, ev, st, mm, which))
          \<in> measure (\<lambda>(cfg, ev, st, mm, which).
                unat (MAX_SIMPLE_SCHEDULES cfg) - unat which)"
    and "((cfg, ev, st, mm, which + 1), (cfg, ev, st, mm, which))
          \<in> measure (\<lambda>(cfg, ev, st, mm, which).
                unat (MAX_SIMPLE_SCHEDULES cfg) - unat which)"
    by simp_all
qed simp

definition isAnyScheduleOnWARMSoon :: "config \<Rightarrow> env \<Rightarrow> state \<Rightarrow> bool" where
  "isAnyScheduleOnWARMSoon cfg ev st =
     (case soUT_override st of
        soUT_off \<Rightarrow> False
      | soUT_soon \<Rightarrow> True
      | soUT_now \<Rightarrow> False
      | soUT_normal \<Rightarrow>
          let mm0 = getMinutesSinceMidnightLT ev + ucast (PREPREWARM_MINS cfg);
              mm = (if mm0 \<ge> word_of_nat MINS_PER_DAY then mm0 - word_of_nat MINS_PER_DAY
                    else mm0)
          in isAnyScheduleOnWARMSoon_loop cfg ev st mm 0)"

subsection \<open>Well-formed configurations and reference values\<close>

text \<open>
  Schedule.cpp holds the compressed start time in one \<open>uint8_t\<close> per slot and relies
  on the unprogrammed EEPROM byte being no schedule. That needs a strictly positive
  granularity that divides the day, so that the compressed values
  \<open>0 .. MINS_PER_DAY / granularity - 1\<close> cover it, and not more than 255 such values, so
  that \<open>MAX_COMPRESSED_MINS_AFTER_MIDNIGHT\<close> fits its byte and stays below \<open>0xFF\<close>.
\<close>

definition valid_config :: "config \<Rightarrow> bool" where
  "valid_config cfg \<longleftrightarrow>
     0 < SIMPLE_SCHEDULE_GRANULARITY_MINS cfg
     \<and> SIMPLE_SCHEDULE_GRANULARITY_MINS cfg dvd MINS_PER_DAY
     \<and> MINS_PER_DAY div SIMPLE_SCHEDULE_GRANULARITY_MINS cfg \<le> 255"

text \<open>
  Winding a start time \<open>a\<close> back by \<open>p\<close> minutes on natural numbers, as
  \<open>getSimpleScheduleOn\<close> does on words: a day is added first when \<open>p\<close> exceeds \<open>a\<close>.
\<close>

definition windBack :: "nat \<Rightarrow> nat \<Rightarrow> nat" where
  "windBack a p = (if p > a then a + MINS_PER_DAY - p else a - p)"

text \<open>
  A configuration to evaluate the functions on. Granularity 6 and a learned on period
  of 60 are the values behind the comments on \<open>PREWARM_MINS\<close> (about 36 minutes) and
  \<open>PREPREWARM_MINS\<close> (about 54 minutes); the slot count, the comfort period and the
  EEPROM base address are sample values. \<open>sample_env\<close> is a policy with a WARM target
  of 18 that is neither eco nor comfort, at a given time of day; \<open>erased_state\<close> is an
  unprogrammed EEPROM with no override.
\<close>

definition sample_config :: config where
  "sample_config =
     \<lparr>SIMPLE_SCHEDULE_GRANULARITY_MINS = 6, MAX_SIMPLE_SCHEDULES = 2,
      LEARNED_ON_PERIOD_M = 60, LEARNED_ON_PERIOD_COMFORT_M = 120,
      V0P2BASE_EE_START_SIMPLE_SCHEDULE0_ON = 8, LEARN_BUTTON_AVAILABLE = True\<rparr>"

definition sample_env :: "uint_least16_t \<Rightarrow> env" where
  "sample_env now =
     \<lparr>getMinutesSinceMidnightLT = now, getWARMTargetC = 18,
      isEcoTemperature = (\<lambda>t. t \<le> 17), isComfortTemperature = (\<lambda>t. 21 \<le> t)\<rparr>"

definition erased_state :: state where
  "erased_state = \<lparr>eeprom = (\<lambda>p. 0xFF), soUT_override = soUT_normal\<rparr>"

text \<open>
  \<open>sample_state\<close>: slot 0 programmed to start at midnight, everything else erased.
\<close>

definition sample_state :: state where
  "sample_state = snd (setSimpleSchedule sample_config 0 0 erased_state)"

text \<open>The same configuration built without \<open>LEARN_BUTTON_AVAILABLE\<close>.\<close>

definition sample_config_no_learn_button :: config where
  "sample_config_no_learn_button = sample_config\<lparr>LEARN_BUTTON_AVAILABLE := False\<rparr>"

text \<open>
  A configuration with granularity 10 and a learned on period of 60, for which
  \<open>PREWARM_MINS\<close> is 40, with one slot.
\<close>

definition prewarm40_config :: config where
  "prewarm40_config =
     \<lparr>SIMPLE_SCHEDULE_GRANULARITY_MINS = 10, MAX_SIMPLE_SCHEDULES = 1,
      LEARNED_ON_PERIOD_M = 60, LEARNED_ON_PERIOD_COMFORT_M = 120,
      V0P2BASE_EE_START_SIMPLE_SCHEDULE0_ON = 8, LEARN_BUTTON_AVAILABLE = True\<rparr>"

text \<open>
  A configuration with granularity 10 and both on periods 10 minutes, for which
  \<open>PREWARM_MINS\<close> is 30 and \<open>onTime()\<close> is 10, with one slot; in \<open>wrap_state\<close> the
  slot is programmed to 00:20, which makes the WARM period run from 1430 to 30.
\<close>

definition wrap_config :: config where
  "wrap_config =
     \<lparr>SIMPLE_SCHEDULE_GRANULARITY_MINS = 10, MAX_SIMPLE_SCHEDULES = 1,
      LEARNED_ON_PERIOD_M = 10, LEARNED_ON_PERIOD_COMFORT_M = 10,
      V0P2BASE_EE_START_SIMPLE_SCHEDULE0_ON = 8, LEARN_BUTTON_AVAILABLE = True\<rparr>"

definition wrap_state :: state where
  "wrap_state = snd (setSimpleSchedule wrap_config 20 0 erased_state)"

text \<open>The sample configuration with a learned on period of 50 minutes.\<close>

definition odd_prewarm_config :: config where
  "odd_prewarm_config = sample_config\<lparr>LEARNED_ON_PERIOD_M := 50\<rparr>"

declare isAnySimpleScheduleSet_loop.simps [simp del]
declare isAnyScheduleOnWARMNow_loop.simps [simp del]
declare isAnyScheduleOnWARMSoon_loop.simps [simp del]

section \<open>Arithmetic of the stored and derived times\<close>

lemma valid_config_sample: "valid_config sample_config"
  by (simp add: valid_config_def sample_config_def MINS_PER_DAY_def)

lemma unat_MAX_COMPRESSED:
  assumes "valid_config cfg"
  shows "unat (MAX_COMPRESSED_MINS_AFTER_MIDNIGHT cfg)
           = MINS_PER_DAY div SIMPLE_SCHEDULE_GRANULARITY_MINS cfg - 1"
proof -
  let ?q = "MINS_PER_DAY div SIMPLE_SCHEDULE_GRANULARITY_MINS cfg"
  from assms have "SIMPLE_SCHEDULE_GRANULARITY_MINS cfg \<le> MINS_PER_DAY"
    by (auto simp: valid_config_def MINS_PER_DAY_def intro: dvd_imp_le)
  with assms have q: "1 \<le> ?q" "?q \<le> 255"
    by (simp_all add: valid_config_def Suc_leI div_greater_zero_iff)
  then obtain n where n: "?q = Suc n"
    by (cases ?q) simp_all
  have "MAX_COMPRESSED_MINS_AFTER_MIDNIGHT cfg = word_of_nat n"
    by (simp add: MAX_COMPRESSED_MINS_AFTER_MIDNIGHT_def n)
  moreover from q n have "n < 2 ^ LENGTH(8)" by simp
  ultimately have "unat (MAX_COMPRESSED_MINS_AFTER_MIDNIGHT cfg) = n"
    by (simp add: unat_of_nat)
  with n show ?thesis by simp
qed

lemma unprogrammed_above_MAX_COMPRESSED:
  assumes "valid_config cfg"
  shows "MAX_COMPRESSED_MINS_AFTER_MIDNIGHT cfg < 0xFF"
proof -
  from assms have "MINS_PER_DAY div SIMPLE_SCHEDULE_GRANULARITY_MINS cfg \<le> 255"
    by (simp add: valid_config_def)
  then have "unat (MAX_COMPRESSED_MINS_AFTER_MIDNIGHT cfg) < 255"
    using assms by (simp add: unat_MAX_COMPRESSED valid_config_def div_greater_zero_iff
        MINS_PER_DAY_def dvd_imp_le)
  then show ?thesis
    by (simp add: word_less_nat_alt)
qed

lemma anchor_bound:
  assumes v: "valid_config cfg" and b: "b \<le> MAX_COMPRESSED_MINS_AFTER_MIDNIGHT cfg"
  shows "SIMPLE_SCHEDULE_GRANULARITY_MINS cfg * unat b + SIMPLE_SCHEDULE_GRANULARITY_MINS cfg
           \<le> MINS_PER_DAY"
proof -
  let ?g = "SIMPLE_SCHEDULE_GRANULARITY_MINS cfg"
  from v have "?g \<le> MINS_PER_DAY"
    by (auto simp: valid_config_def MINS_PER_DAY_def intro: dvd_imp_le)
  with v have q: "1 \<le> MINS_PER_DAY div ?g"
    by (simp add: valid_config_def Suc_leI div_greater_zero_iff)
  from b have "unat b \<le> MINS_PER_DAY div ?g - 1"
    by (simp add: word_le_nat_alt unat_MAX_COMPRESSED [OF v])
  with q have "unat b + 1 \<le> MINS_PER_DAY div ?g" by simp
  then have "?g * (unat b + 1) \<le> ?g * (MINS_PER_DAY div ?g)"
    by (rule mult_le_mono2)
  also have "\<dots> \<le> MINS_PER_DAY" by simp
  finally show ?thesis by simp
qed

lemma compressed_in_range:
  assumes v: "valid_config cfg" and n: "n < MINS_PER_DAY"
  shows "n div SIMPLE_SCHEDULE_GRANULARITY_MINS cfg
           \<le> MINS_PER_DAY div SIMPLE_SCHEDULE_GRANULARITY_MINS cfg - 1"
proof -
  let ?g = "SIMPLE_SCHEDULE_GRANULARITY_MINS cfg"
  from v have "(MINS_PER_DAY div ?g) * ?g = MINS_PER_DAY"
    by (simp add: valid_config_def)
  with n have "n < (MINS_PER_DAY div ?g) * ?g" by simp
  then have "n div ?g < MINS_PER_DAY div ?g"
    by (rule less_mult_imp_div_less)
  then show ?thesis by simp
qed

lemma unat_byte_le: "unat (b :: uint8_t) \<le> 255"
  using unsigned_less [of b, where ?'a = nat] by simp

lemma unat_word16_of_nat: "n < 65536 \<Longrightarrow> unat (word_of_nat n :: uint_least16_t) = n"
  by (simp add: unat_of_nat)

lemma unat_word8_of_nat: "n < 256 \<Longrightarrow> unat (word_of_nat n :: uint8_t) = n"
  by (simp add: unat_of_nat)

lemma unat_ucast_byte: "unat (ucast (b :: uint8_t) :: uint_least16_t) = unat b"
proof -
  have "unat b < 2 ^ 16"
    using unsigned_less [of b, where ?'a = nat] by simp
  then show ?thesis
    by (simp add: unsigned_ucast_eq take_bit_nat_eq_self)
qed

lemma unat_invalid_time: "unat invalid_time = 65535"
  by (simp add: invalid_time_def)

lemma windBack_less:
  assumes "a < MINS_PER_DAY" and "p \<le> 255"
  shows "windBack a p < MINS_PER_DAY"
  using assms by (auto simp: windBack_def MINS_PER_DAY_def)

lemma windBack_mod:
  assumes "a < MINS_PER_DAY" and "p \<le> 255"
  shows "int (windBack a p) = (int a - int p) mod int MINS_PER_DAY"
proof (cases "p > a")
  case True
  have "(int a - int p) mod 1440 = (int a - int p + 1440) mod 1440"
    by simp
  also from True assms have "\<dots> = int a - int p + 1440"
    by (intro mod_pos_pos_trivial) simp_all
  finally have "(int a - int p) mod 1440 = int a - int p + 1440" .
  with True show ?thesis
    by (simp add: windBack_def MINS_PER_DAY_def)
next
  case False
  with assms have "(int a - int p) mod 1440 = int a - int p"
    by (simp add: MINS_PER_DAY_def)
  with False show ?thesis
    by (simp add: windBack_def MINS_PER_DAY_def)
qed

lemma windBack_words:
  fixes s w :: uint_least16_t
  assumes a: "unat s < 1440" and p: "unat w \<le> 255"
  shows "unat ((if w > s then s + word_of_nat MINS_PER_DAY else s) - w)
           = windBack (unat s) (unat w)"
proof (cases "w > s")
  case True
  then have lt: "unat s < unat w" by (simp add: word_less_nat_alt)
  have s1: "unat (s + 1440) = unat s + 1440"
    using a by (simp add: unat_word_ariths)
  have "w \<le> s + 1440"
    using p s1 by (simp add: word_le_nat_alt)
  then have "unat (s + 1440 - w) = unat s + 1440 - unat w"
    using s1 by (simp add: unat_sub)
  with True lt show ?thesis
    by (simp add: windBack_def MINS_PER_DAY_def)
next
  case False
  then have le: "w \<le> s" by simp
  then have "unat (s - w) = unat s - unat w" by (simp add: unat_sub)
  moreover from le have "\<not> unat s < unat w" by (simp add: word_le_nat_alt)
  ultimately show ?thesis using False
    by (simp add: windBack_def)
qed

section \<open>The schedule on time\<close>

lemma getSimpleScheduleOn_invalid:
  assumes "MAX_SIMPLE_SCHEDULES cfg \<le> which
           \<or> MAX_COMPRESSED_MINS_AFTER_MIDNIGHT cfg < eeprom_read_byte st (schedule_address cfg which)"
  shows "getSimpleScheduleOn cfg st which = invalid_time"
  using assms by (auto simp: getSimpleScheduleOn_def Let_def)

lemma unat_getSimpleScheduleOn:
  assumes v: "valid_config cfg"
    and w: "which < MAX_SIMPLE_SCHEDULES cfg"
    and b: "eeprom st (schedule_address cfg which) \<le> MAX_COMPRESSED_MINS_AFTER_MIDNIGHT cfg"
  shows "unat (getSimpleScheduleOn cfg st which) =
           (if LEARN_BUTTON_AVAILABLE cfg
            then windBack (SIMPLE_SCHEDULE_GRANULARITY_MINS cfg
                             * unat (eeprom st (schedule_address cfg which)))
                          (unat (PREWARM_MINS cfg))
            else SIMPLE_SCHEDULE_GRANULARITY_MINS cfg
                   * unat (eeprom st (schedule_address cfg which)))"
proof -
  define a where
    "a = SIMPLE_SCHEDULE_GRANULARITY_MINS cfg * unat (eeprom st (schedule_address cfg which))"
  define s :: uint_least16_t where "s = word_of_nat a"
  define w :: uint_least16_t where "w = ucast (PREWARM_MINS cfg)"
  from anchor_bound [OF v b] have a: "a < 1440"
    using v by (simp add: valid_config_def MINS_PER_DAY_def a_def)
  have us: "unat s = a"
    unfolding s_def using a by (simp only: unat_word16_of_nat)
  have uw: "unat w = unat (PREWARM_MINS cfg)"
    unfolding w_def by (rule unat_ucast_byte)
  have p: "unat w \<le> 255"
    unfolding uw by (rule unat_byte_le)
  have wb: "unat ((if w > s then s + word_of_nat MINS_PER_DAY else s) - w)
              = windBack a (unat (PREWARM_MINS cfg))"
    using windBack_words [of s w] a p us uw by simp
  from w have nw: "\<not> MAX_SIMPLE_SCHEDULES cfg \<le> which" by simp
  from b have nb: "\<not> MAX_COMPRESSED_MINS_AFTER_MIDNIGHT cfg
                      < eeprom st (schedule_address cfg which)" by simp
  have "getSimpleScheduleOn cfg st which =
          (if LEARN_BUTTON_AVAILABLE cfg
           then (if w > s then s + word_of_nat MINS_PER_DAY else s) - w else s)"
    unfolding getSimpleScheduleOn_def eeprom_read_byte_def Let_def s_def w_def a_def
    using nw nb by (simp only: if_False)
  then show ?thesis
    using us wb unfolding a_def [symmetric] by simp
qed

lemma getSimpleScheduleOn_less:
  assumes v: "valid_config cfg"
    and w: "which < MAX_SIMPLE_SCHEDULES cfg"
    and b: "eeprom st (schedule_address cfg which) \<le> MAX_COMPRESSED_MINS_AFTER_MIDNIGHT cfg"
  shows "unat (getSimpleScheduleOn cfg st which) < MINS_PER_DAY"
proof -
  let ?a = "SIMPLE_SCHEDULE_GRANULARITY_MINS cfg * unat (eeprom st (schedule_address cfg which))"
  from anchor_bound [OF v b] v have a: "?a < MINS_PER_DAY"
    by (simp add: valid_config_def)
  then have "windBack ?a (unat (PREWARM_MINS cfg)) < MINS_PER_DAY"
    by (rule windBack_less) (rule unat_byte_le)
  with a show ?thesis
    by (simp add: unat_getSimpleScheduleOn [OF v w b])
qed

lemma getSimpleScheduleOn_valid_iff:
  assumes v: "valid_config cfg"
  shows "getSimpleScheduleOn cfg st which \<noteq> invalid_time \<longleftrightarrow>
           which < MAX_SIMPLE_SCHEDULES cfg
           \<and> eeprom st (schedule_address cfg which) \<le> MAX_COMPRESSED_MINS_AFTER_MIDNIGHT cfg"
proof
  assume ne: "getSimpleScheduleOn cfg st which \<noteq> invalid_time"
  show "which < MAX_SIMPLE_SCHEDULES cfg
        \<and> eeprom st (schedule_address cfg which) \<le> MAX_COMPRESSED_MINS_AFTER_MIDNIGHT cfg"
  proof (rule ccontr)
    assume "\<not> ?thesis"
    then have "MAX_SIMPLE_SCHEDULES cfg \<le> which
               \<or> MAX_COMPRESSED_MINS_AFTER_MIDNIGHT cfg
                    < eeprom_read_byte st (schedule_address cfg which)"
      by (auto simp: eeprom_read_byte_def)
    then have "getSimpleScheduleOn cfg st which = invalid_time"
      by (rule getSimpleScheduleOn_invalid)
    with ne show False by simp
  qed
next
  assume "which < MAX_SIMPLE_SCHEDULES cfg
          \<and> eeprom st (schedule_address cfg which) \<le> MAX_COMPRESSED_MINS_AFTER_MIDNIGHT cfg"
  then have "unat (getSimpleScheduleOn cfg st which) < MINS_PER_DAY"
    using v by (simp add: getSimpleScheduleOn_less)
  then show "getSimpleScheduleOn cfg st which \<noteq> invalid_time"
    by (auto simp: unat_invalid_time MINS_PER_DAY_def)
qed

section \<open>The schedule off time\<close>

lemma unat_end_of_period:
  fixes s :: uint_least16_t and p t :: uint8_t
  assumes "unat s < 1440"
  shows "unat (s + ucast p + ucast t) = unat s + unat p + unat t"
proof -
  have p: "unat p \<le> 255" and t: "unat t \<le> 255"
    by (rule unat_byte_le)+
  have "unat (s + ucast p) = unat s + unat p"
    using assms p by (simp add: unat_word_ariths unat_ucast_byte)
  moreover have "unat (s + ucast p + ucast t) = (unat (s + ucast p) + unat t) mod 65536"
    by (simp add: unat_word_ariths unat_ucast_byte)
  ultimately show ?thesis
    using assms p t by simp
qed

lemma wrap_day_words:
  fixes e :: uint_least16_t
  assumes "unat e < 2 * MINS_PER_DAY"
  shows "unat (if e \<ge> word_of_nat MINS_PER_DAY then e - word_of_nat MINS_PER_DAY else e)
           = unat e mod MINS_PER_DAY"
proof (cases "e \<ge> 1440")
  case True
  then have ge: "1440 \<le> unat e" by (simp add: word_le_nat_alt)
  from True have "unat (e - 1440) = unat e - 1440" by (simp add: unat_sub)
  moreover from ge assms have "unat e mod 1440 = unat e - 1440"
    by (simp add: MINS_PER_DAY_def mod_if)
  ultimately show ?thesis using True
    by (simp add: MINS_PER_DAY_def)
next
  case False
  then have "unat e < 1440" by (simp add: word_le_nat_alt)
  with False show ?thesis
    by (simp add: MINS_PER_DAY_def)
qed

lemma unat_getSimpleScheduleOff:
  assumes "unat (getSimpleScheduleOn cfg st which) < MINS_PER_DAY"
  shows "unat (getSimpleScheduleOff cfg ev st which) =
           (unat (getSimpleScheduleOn cfg st which) + unat (PREWARM_MINS cfg)
              + unat (onTime cfg ev)) mod MINS_PER_DAY"
proof -
  define s where "s = getSimpleScheduleOn cfg st which"
  define e where "e = s + ucast (PREWARM_MINS cfg) + ucast (onTime cfg ev)"
  from assms have s: "unat s < 1440"
    by (simp add: s_def MINS_PER_DAY_def)
  then have "s \<noteq> invalid_time"
    by (auto simp: unat_invalid_time)
  then have off: "getSimpleScheduleOff cfg ev st which =
      (if e \<ge> word_of_nat MINS_PER_DAY then e - word_of_nat MINS_PER_DAY else e)"
    by (simp add: getSimpleScheduleOff_def Let_def s_def e_def)
  have sum: "unat e = unat s + unat (PREWARM_MINS cfg) + unat (onTime cfg ev)"
    unfolding e_def using s by (rule unat_end_of_period)
  have "unat (PREWARM_MINS cfg) \<le> 255" and "unat (onTime cfg ev) \<le> 255"
    by (rule unat_byte_le)+
  with s sum have "unat e < 2 * MINS_PER_DAY"
    by (simp add: MINS_PER_DAY_def)
  then have "unat (getSimpleScheduleOff cfg ev st which) = unat e mod MINS_PER_DAY"
    unfolding off by (rule wrap_day_words)
  with sum show ?thesis
    by (simp add: s_def)
qed

lemma getSimpleScheduleOff_invalid:
  assumes "getSimpleScheduleOn cfg st which = invalid_time"
  shows "getSimpleScheduleOff cfg ev st which = invalid_time"
  using assms by (simp add: getSimpleScheduleOff_def)

lemma getSimpleScheduleOn_invalid_or_less:
  assumes "valid_config cfg"
  shows "getSimpleScheduleOn cfg st which = invalid_time
         \<or> unat (getSimpleScheduleOn cfg st which) < MINS_PER_DAY"
  using assms getSimpleScheduleOn_valid_iff [of cfg st which]
    getSimpleScheduleOn_less [of cfg which st]
  by blast

section \<open>Claims about single schedules\<close>

text \<open>
  C6: for every slot number, \<open>getSimpleScheduleOn\<close> returns the invalid value \<open>~0\<close>
  (all bits set) whenever the slot number is not below \<open>MAX_SIMPLE_SCHEDULES\<close> or the
  stored byte of the slot is above \<open>MAX_COMPRESSED_MINS_AFTER_MIDNIGHT\<close>; in a
  well-formed configuration the unprogrammed byte \<open>0xFF\<close> is such a byte. The function
  is total, so a corrupted or unprogrammed byte reads as no schedule.
\<close>

theorem getSimpleScheduleOn_no_schedule:
  "invalid_time = - 1
   \<and> (MAX_SIMPLE_SCHEDULES cfg \<le> which
        \<or> MAX_COMPRESSED_MINS_AFTER_MIDNIGHT cfg
             < eeprom_read_byte st (schedule_address cfg which)
      \<longrightarrow> getSimpleScheduleOn cfg st which = invalid_time)
   \<and> (valid_config cfg \<and> eeprom_read_byte st (schedule_address cfg which) = 0xFF
      \<longrightarrow> getSimpleScheduleOn cfg st which = invalid_time)"
proof (intro conjI impI)
  show "invalid_time = - 1"
    by (simp add: invalid_time_def)
next
  assume "MAX_SIMPLE_SCHEDULES cfg \<le> which
          \<or> MAX_COMPRESSED_MINS_AFTER_MIDNIGHT cfg
               < eeprom_read_byte st (schedule_address cfg which)"
  then show "getSimpleScheduleOn cfg st which = invalid_time"
    by (rule getSimpleScheduleOn_invalid)
next
  assume "valid_config cfg \<and> eeprom_read_byte st (schedule_address cfg which) = 0xFF"
  then have "MAX_COMPRESSED_MINS_AFTER_MIDNIGHT cfg
               < eeprom_read_byte st (schedule_address cfg which)"
    by (simp add: unprogrammed_above_MAX_COMPRESSED)
  then show "getSimpleScheduleOn cfg st which = invalid_time"
    by (simp add: getSimpleScheduleOn_invalid)
qed

theorem getSimpleScheduleOn_no_schedule_witness:
  "MAX_SIMPLE_SCHEDULES sample_config \<le> 2
   \<and> getSimpleScheduleOn sample_config erased_state 2 = invalid_time
   \<and> valid_config sample_config
   \<and> eeprom_read_byte erased_state (schedule_address sample_config 0) = 0xFF
   \<and> getSimpleScheduleOn sample_config erased_state 0 = invalid_time"
proof -
  have out: "MAX_SIMPLE_SCHEDULES sample_config \<le> 2"
    by (simp add: sample_config_def)
  have erased: "eeprom_read_byte erased_state (schedule_address sample_config 0) = 0xFF"
    by (simp add: eeprom_read_byte_def erased_state_def)
  from out getSimpleScheduleOn_no_schedule [of sample_config 2 erased_state]
  have "getSimpleScheduleOn sample_config erased_state 2 = invalid_time"
    by blast
  moreover
  from valid_config_sample erased getSimpleScheduleOn_no_schedule [of sample_config 0 erased_state]
  have "getSimpleScheduleOn sample_config erased_state 0 = invalid_time"
    by blast
  ultimately show ?thesis
    using out erased valid_config_sample by simp
qed

text \<open>
  C9: in a well-formed configuration, every value of \<open>getSimpleScheduleOn\<close> other
  than the invalid one lies in \<open>[0, MINS_PER_DAY)\<close>, and so does every value of
  \<open>getSimpleScheduleOff\<close> other than the invalid one; the sum that
  \<open>getSimpleScheduleOff\<close> reduces is below \<open>2 * MINS_PER_DAY\<close>, so that subtracting
  one day once is enough.
\<close>

theorem schedule_times_within_day:
  assumes v: "valid_config cfg"
  shows "(getSimpleScheduleOn cfg st which \<noteq> invalid_time
            \<longrightarrow> unat (getSimpleScheduleOn cfg st which) < MINS_PER_DAY)
       \<and> (getSimpleScheduleOff cfg ev st which \<noteq> invalid_time
            \<longrightarrow> unat (getSimpleScheduleOff cfg ev st which) < MINS_PER_DAY)
       \<and> (getSimpleScheduleOn cfg st which \<noteq> invalid_time
            \<longrightarrow> unat (getSimpleScheduleOn cfg st which) + unat (PREWARM_MINS cfg)
                  + unat (onTime cfg ev) < 2 * MINS_PER_DAY)"
proof (intro conjI impI)
  assume "getSimpleScheduleOn cfg st which \<noteq> invalid_time"
  with getSimpleScheduleOn_invalid_or_less [OF v, of st which]
  show on: "unat (getSimpleScheduleOn cfg st which) < MINS_PER_DAY"
    by simp
  have "unat (PREWARM_MINS cfg) \<le> 255" and "unat (onTime cfg ev) \<le> 255"
    by (rule unat_byte_le)+
  with on show "unat (getSimpleScheduleOn cfg st which) + unat (PREWARM_MINS cfg)
                  + unat (onTime cfg ev) < 2 * MINS_PER_DAY"
    by (simp add: MINS_PER_DAY_def)
next
  assume "getSimpleScheduleOff cfg ev st which \<noteq> invalid_time"
  then have "getSimpleScheduleOn cfg st which \<noteq> invalid_time"
    using getSimpleScheduleOff_invalid [of cfg st which ev] by blast
  with getSimpleScheduleOn_invalid_or_less [OF v, of st which]
  have "unat (getSimpleScheduleOn cfg st which) < MINS_PER_DAY"
    by simp
  then have "unat (getSimpleScheduleOff cfg ev st which) =
      (unat (getSimpleScheduleOn cfg st which) + unat (PREWARM_MINS cfg)
         + unat (onTime cfg ev)) mod MINS_PER_DAY"
    by (rule unat_getSimpleScheduleOff)
  then show "unat (getSimpleScheduleOff cfg ev st which) < MINS_PER_DAY"
    by (simp add: MINS_PER_DAY_def)
qed

theorem schedule_times_within_day_witness:
  "valid_config sample_config
   \<and> getSimpleScheduleOn sample_config sample_state 0 \<noteq> invalid_time
   \<and> unat (getSimpleScheduleOn sample_config sample_state 0) < MINS_PER_DAY
   \<and> getSimpleScheduleOff sample_config (sample_env 0) sample_state 0 \<noteq> invalid_time
   \<and> unat (getSimpleScheduleOff sample_config (sample_env 0) sample_state 0) < MINS_PER_DAY
   \<and> unat (getSimpleScheduleOn sample_config sample_state 0)
         + unat (PREWARM_MINS sample_config) + unat (onTime sample_config (sample_env 0))
       < 2 * MINS_PER_DAY"
proof -
  have on: "getSimpleScheduleOn sample_config sample_state 0 \<noteq> invalid_time"
    by code_simp
  have off: "getSimpleScheduleOff sample_config (sample_env 0) sample_state 0 \<noteq> invalid_time"
    by code_simp
  from schedule_times_within_day [OF valid_config_sample, of sample_state 0 "sample_env 0"] on off
  show ?thesis
    using valid_config_sample by blast
qed

text \<open>
  C4: in a well-formed configuration \<open>getSimpleScheduleOff\<close> returns the invalid value
  exactly when \<open>getSimpleScheduleOn\<close> does, and otherwise the on time plus
  \<open>PREWARM_MINS\<close> plus \<open>onTime()\<close>, reduced modulo \<open>MINS_PER_DAY\<close>; \<open>onTime()\<close> is
  read from the policy at the time of the call.
\<close>

theorem getSimpleScheduleOff_value:
  assumes v: "valid_config cfg"
  shows "(getSimpleScheduleOff cfg ev st which = invalid_time
            \<longleftrightarrow> getSimpleScheduleOn cfg st which = invalid_time)
       \<and> (getSimpleScheduleOn cfg st which \<noteq> invalid_time
            \<longrightarrow> unat (getSimpleScheduleOff cfg ev st which) =
                  (unat (getSimpleScheduleOn cfg st which) + unat (PREWARM_MINS cfg)
                     + unat (onTime cfg ev)) mod MINS_PER_DAY)"
proof -
  have valid: "unat (getSimpleScheduleOff cfg ev st which) =
                  (unat (getSimpleScheduleOn cfg st which) + unat (PREWARM_MINS cfg)
                     + unat (onTime cfg ev)) mod MINS_PER_DAY"
    if "getSimpleScheduleOn cfg st which \<noteq> invalid_time"
  proof -
    from that getSimpleScheduleOn_invalid_or_less [OF v, of st which]
    have "unat (getSimpleScheduleOn cfg st which) < MINS_PER_DAY"
      by simp
    then show ?thesis
      by (rule unat_getSimpleScheduleOff)
  qed
  have "getSimpleScheduleOff cfg ev st which \<noteq> invalid_time"
    if "getSimpleScheduleOn cfg st which \<noteq> invalid_time"
  proof -
    have "unat (getSimpleScheduleOff cfg ev st which) < MINS_PER_DAY"
      by (simp add: valid [OF that] MINS_PER_DAY_def)
    then show ?thesis
      by (auto simp: unat_invalid_time MINS_PER_DAY_def)
  qed
  with valid show ?thesis
    using getSimpleScheduleOff_invalid [of cfg st which ev] by blast
qed

theorem getSimpleScheduleOff_value_witness:
  "valid_config sample_config
   \<and> getSimpleScheduleOn sample_config sample_state 0 \<noteq> invalid_time
   \<and> getSimpleScheduleOff sample_config (sample_env 0) sample_state 0 \<noteq> invalid_time
   \<and> unat (getSimpleScheduleOff sample_config (sample_env 0) sample_state 0) =
        (unat (getSimpleScheduleOn sample_config sample_state 0)
           + unat (PREWARM_MINS sample_config) + unat (onTime sample_config (sample_env 0)))
        mod MINS_PER_DAY
   \<and> getSimpleScheduleOn sample_config sample_state 1 = invalid_time
   \<and> getSimpleScheduleOff sample_config (sample_env 0) sample_state 1 = invalid_time"
proof -
  have on: "getSimpleScheduleOn sample_config sample_state 0 \<noteq> invalid_time"
    by code_simp
  have unset: "getSimpleScheduleOn sample_config sample_state 1 = invalid_time"
    by code_simp
  from getSimpleScheduleOff_value [OF valid_config_sample, of "sample_env 0" sample_state 0] on
    getSimpleScheduleOff_value [OF valid_config_sample, of "sample_env 0" sample_state 1] unset
  show ?thesis
    using valid_config_sample by blast
qed

section \<open>Setting and clearing a schedule\<close>

lemma eeprom_smart_update_byte_eeprom:
  "eeprom (eeprom_smart_update_byte p v st) = (eeprom st)(p := v)"
  by (auto simp: eeprom_smart_update_byte_def)

lemma eeprom_smart_erase_byte_eeprom:
  "eeprom (eeprom_smart_erase_byte p st) = (eeprom st)(p := 0xFF)"
  by (auto simp: eeprom_smart_erase_byte_def)

lemma day_le_word_iff:
  "word_of_nat MINS_PER_DAY \<le> (m :: uint_least16_t) \<longleftrightarrow> MINS_PER_DAY \<le> unat m"
  by (simp add: MINS_PER_DAY_def word_le_nat_alt)

lemma setSimpleSchedule_rejected:
  assumes "MAX_SIMPLE_SCHEDULES cfg \<le> which \<or> MINS_PER_DAY \<le> unat m"
  shows "setSimpleSchedule cfg m which st = (False, st)"
  using assms by (auto simp: setSimpleSchedule_def day_le_word_iff)

lemma setSimpleSchedule_accepted:
  assumes "which < MAX_SIMPLE_SCHEDULES cfg" and "unat m < MINS_PER_DAY"
  shows "setSimpleSchedule cfg m which st =
           (True, eeprom_smart_update_byte (schedule_address cfg which)
                    (word_of_nat (unat m div SIMPLE_SCHEDULE_GRANULARITY_MINS cfg)) st)"
  using assms by (simp add: setSimpleSchedule_def day_le_word_iff Let_def)

lemma unat_compressed:
  assumes v: "valid_config cfg" and n: "n < MINS_PER_DAY"
  shows "unat (word_of_nat (n div SIMPLE_SCHEDULE_GRANULARITY_MINS cfg) :: uint8_t)
           = n div SIMPLE_SCHEDULE_GRANULARITY_MINS cfg"
proof -
  from v have "MINS_PER_DAY div SIMPLE_SCHEDULE_GRANULARITY_MINS cfg \<le> 255"
    by (simp add: valid_config_def)
  with compressed_in_range [OF v n]
  have "n div SIMPLE_SCHEDULE_GRANULARITY_MINS cfg < 256"
    by simp
  then show ?thesis
    by (rule unat_word8_of_nat)
qed

lemma compressed_le_MAX_COMPRESSED:
  assumes v: "valid_config cfg" and n: "n < MINS_PER_DAY"
  shows "(word_of_nat (n div SIMPLE_SCHEDULE_GRANULARITY_MINS cfg) :: uint8_t)
           \<le> MAX_COMPRESSED_MINS_AFTER_MIDNIGHT cfg"
  using compressed_in_range [OF v n]
  by (simp only: word_le_nat_alt unat_compressed [OF v n] unat_MAX_COMPRESSED [OF v])

lemma schedule_address_eq_iff:
  "schedule_address cfg j = schedule_address cfg k \<longleftrightarrow> j = k"
  by (simp add: schedule_address_def word_unat_eq_iff)

lemma getSimpleScheduleOn_same_byte:
  assumes "eeprom st' (schedule_address cfg j) = eeprom st (schedule_address cfg j)"
  shows "getSimpleScheduleOn cfg st' j = getSimpleScheduleOn cfg st j"
  using assms by (simp add: getSimpleScheduleOn_def eeprom_read_byte_def)

text \<open>
  C5: in a well-formed configuration, \<open>setSimpleSchedule(minutes, which)\<close> returns false
  and leaves the persisted bytes unchanged if and only if \<open>which\<close> is not below
  \<open>MAX_SIMPLE_SCHEDULES\<close> or \<open>minutes\<close> is not below \<open>MINS_PER_DAY\<close>; then the whole
  state is unchanged. For all other inputs it returns true and the byte of slot
  \<open>which\<close> holds \<open>minutes\<close> divided by the granularity, rounded down.
\<close>

theorem setSimpleSchedule_outcome:
  assumes v: "valid_config cfg"
  shows "((fst (setSimpleSchedule cfg m which st) = False
            \<and> eeprom (snd (setSimpleSchedule cfg m which st)) = eeprom st)
          \<longleftrightarrow> (MAX_SIMPLE_SCHEDULES cfg \<le> which \<or> MINS_PER_DAY \<le> unat m))
       \<and> (MAX_SIMPLE_SCHEDULES cfg \<le> which \<or> MINS_PER_DAY \<le> unat m
            \<longrightarrow> setSimpleSchedule cfg m which st = (False, st))
       \<and> (which < MAX_SIMPLE_SCHEDULES cfg \<and> unat m < MINS_PER_DAY
            \<longrightarrow> fst (setSimpleSchedule cfg m which st) = True
                \<and> unat (eeprom (snd (setSimpleSchedule cfg m which st))
                          (schedule_address cfg which))
                    = unat m div SIMPLE_SCHEDULE_GRANULARITY_MINS cfg)"
proof (cases "MAX_SIMPLE_SCHEDULES cfg \<le> which \<or> MINS_PER_DAY \<le> unat m")
  case True
  then have "setSimpleSchedule cfg m which st = (False, st)"
    by (rule setSimpleSchedule_rejected)
  with True show ?thesis
    by auto
next
  case False
  then have ok: "which < MAX_SIMPLE_SCHEDULES cfg" "unat m < MINS_PER_DAY"
    by auto
  have "unat (eeprom (snd (setSimpleSchedule cfg m which st)) (schedule_address cfg which))
          = unat m div SIMPLE_SCHEDULE_GRANULARITY_MINS cfg"
    by (simp add: setSimpleSchedule_accepted [OF ok] eeprom_smart_update_byte_eeprom
        unat_compressed [OF v ok(2)])
  moreover have "fst (setSimpleSchedule cfg m which st) = True"
    by (simp add: setSimpleSchedule_accepted [OF ok])
  ultimately show ?thesis
    using False by simp
qed

theorem setSimpleSchedule_outcome_witness:
  "valid_config sample_config
   \<and> MAX_SIMPLE_SCHEDULES sample_config \<le> 2
   \<and> setSimpleSchedule sample_config 100 2 sample_state = (False, sample_state)
   \<and> MINS_PER_DAY \<le> unat (1440 :: uint_least16_t)
   \<and> setSimpleSchedule sample_config 1440 0 sample_state = (False, sample_state)
   \<and> (1 :: uint8_t) < MAX_SIMPLE_SCHEDULES sample_config
   \<and> unat (1439 :: uint_least16_t) < MINS_PER_DAY
   \<and> fst (setSimpleSchedule sample_config 1439 1 sample_state) = True
   \<and> unat (eeprom (snd (setSimpleSchedule sample_config 1439 1 sample_state))
             (schedule_address sample_config 1)) = 239"
proof -
  have slots: "MAX_SIMPLE_SCHEDULES sample_config \<le> 2" "(1 :: uint8_t) < MAX_SIMPLE_SCHEDULES sample_config"
    by (simp_all add: sample_config_def)
  have times: "MINS_PER_DAY \<le> unat (1440 :: uint_least16_t)" "unat (1439 :: uint_least16_t) < MINS_PER_DAY"
    by (simp_all add: MINS_PER_DAY_def)
  have g: "unat (1439 :: uint_least16_t) div SIMPLE_SCHEDULE_GRANULARITY_MINS sample_config = 239"
    by (simp add: sample_config_def)
  from setSimpleSchedule_outcome [OF valid_config_sample, of 100 2 sample_state] slots
  have "setSimpleSchedule sample_config 100 2 sample_state = (False, sample_state)"
    by blast
  moreover
  from setSimpleSchedule_outcome [OF valid_config_sample, of 1440 0 sample_state] times
  have "setSimpleSchedule sample_config 1440 0 sample_state = (False, sample_state)"
    by blast
  moreover
  from setSimpleSchedule_outcome [OF valid_config_sample, of 1439 1 sample_state] slots times
  have "fst (setSimpleSchedule sample_config 1439 1 sample_state) = True
        \<and> unat (eeprom (snd (setSimpleSchedule sample_config 1439 1 sample_state))
                   (schedule_address sample_config 1))
            = unat (1439 :: uint_least16_t) div SIMPLE_SCHEDULE_GRANULARITY_MINS sample_config"
    by blast
  ultimately show ?thesis
    using valid_config_sample slots times g by simp
qed

text \<open>
  C10: \<open>setSimpleSchedule(m, k)\<close> and \<open>clearSimpleSchedule(k)\<close> change at most the
  persisted byte at address \<open>V0P2BASE_EE_START_SIMPLE_SCHEDULE0_ON + k\<close>: the byte at
  every other address is as before, the override is as before, and for every slot
  \<open>j\<close> other than \<open>k\<close> \<open>getSimpleScheduleOn(j)\<close> returns the same result before and
  after the call. This holds for every \<open>k\<close>, in particular for the slots below
  \<open>MAX_SIMPLE_SCHEDULES\<close>.
\<close>

theorem set_and_clear_touch_one_byte:
  "schedule_address cfg k = V0P2BASE_EE_START_SIMPLE_SCHEDULE0_ON cfg + unat k
   \<and> (\<forall>a. a \<noteq> schedule_address cfg k \<longrightarrow>
          eeprom (snd (setSimpleSchedule cfg m k st)) a = eeprom st a
          \<and> eeprom (clearSimpleSchedule cfg k st) a = eeprom st a)
   \<and> soUT_override (snd (setSimpleSchedule cfg m k st)) = soUT_override st
   \<and> soUT_override (clearSimpleSchedule cfg k st) = soUT_override st
   \<and> (\<forall>j. j \<noteq> k \<longrightarrow>
          getSimpleScheduleOn cfg (snd (setSimpleSchedule cfg m k st)) j
            = getSimpleScheduleOn cfg st j
          \<and> getSimpleScheduleOn cfg (clearSimpleSchedule cfg k st) j
            = getSimpleScheduleOn cfg st j)"
proof -
  have set_other: "eeprom (snd (setSimpleSchedule cfg m k st)) a = eeprom st a"
    if "a \<noteq> schedule_address cfg k" for a
    using that by (simp add: setSimpleSchedule_def Let_def eeprom_smart_update_byte_eeprom)
  have clear_other: "eeprom (clearSimpleSchedule cfg k st) a = eeprom st a"
    if "a \<noteq> schedule_address cfg k" for a
    using that by (simp add: clearSimpleSchedule_def eeprom_smart_erase_byte_eeprom)
  have override:
    "soUT_override (snd (setSimpleSchedule cfg m k st)) = soUT_override st"
    "soUT_override (clearSimpleSchedule cfg k st) = soUT_override st"
    by (simp_all add: setSimpleSchedule_def clearSimpleSchedule_def Let_def
        eeprom_smart_update_byte_def eeprom_smart_erase_byte_def)
  have on_other:
    "getSimpleScheduleOn cfg (snd (setSimpleSchedule cfg m k st)) j = getSimpleScheduleOn cfg st j
     \<and> getSimpleScheduleOn cfg (clearSimpleSchedule cfg k st) j = getSimpleScheduleOn cfg st j"
    if "j \<noteq> k" for j
  proof -
    from that have other: "schedule_address cfg j \<noteq> schedule_address cfg k"
      by (simp add: schedule_address_eq_iff)
    show ?thesis
      by (intro conjI getSimpleScheduleOn_same_byte set_other clear_other other)
  qed
  have "schedule_address cfg k = V0P2BASE_EE_START_SIMPLE_SCHEDULE0_ON cfg + unat k"
    by (simp only: schedule_address_def)
  moreover from set_other clear_other
  have "\<forall>a. a \<noteq> schedule_address cfg k \<longrightarrow>
          eeprom (snd (setSimpleSchedule cfg m k st)) a = eeprom st a
          \<and> eeprom (clearSimpleSchedule cfg k st) a = eeprom st a"
    by blast
  moreover from on_other
  have "\<forall>j. j \<noteq> k \<longrightarrow>
          getSimpleScheduleOn cfg (snd (setSimpleSchedule cfg m k st)) j
            = getSimpleScheduleOn cfg st j
          \<and> getSimpleScheduleOn cfg (clearSimpleSchedule cfg k st) j
            = getSimpleScheduleOn cfg st j"
    by blast
  ultimately show ?thesis
    using override by (intro conjI)
qed

theorem set_and_clear_touch_one_byte_witness:
  "(8 :: nat) \<noteq> schedule_address sample_config 1
   \<and> eeprom (snd (setSimpleSchedule sample_config 600 1 sample_state)) 8 = eeprom sample_state 8
   \<and> eeprom (clearSimpleSchedule sample_config 1 sample_state) 8 = eeprom sample_state 8
   \<and> (0 :: uint8_t) \<noteq> 1
   \<and> getSimpleScheduleOn sample_config (snd (setSimpleSchedule sample_config 600 1 sample_state)) 0
       = getSimpleScheduleOn sample_config sample_state 0
   \<and> getSimpleScheduleOn sample_config (clearSimpleSchedule sample_config 1 sample_state) 0
       = getSimpleScheduleOn sample_config sample_state 0
   \<and> eeprom (snd (setSimpleSchedule sample_config 600 1 sample_state)) 9
       \<noteq> eeprom sample_state 9"
proof -
  have addr: "(8 :: nat) \<noteq> schedule_address sample_config 1"
    by (simp add: schedule_address_def sample_config_def)
  have changed: "eeprom (snd (setSimpleSchedule sample_config 600 1 sample_state)) 9
                   \<noteq> eeprom sample_state 9"
    by code_simp
  note frame = set_and_clear_touch_one_byte [of sample_config 1 600 sample_state]
  from addr frame [THEN conjunct2, THEN conjunct1, rule_format, of 8]
  have "eeprom (snd (setSimpleSchedule sample_config 600 1 sample_state)) 8 = eeprom sample_state 8
        \<and> eeprom (clearSimpleSchedule sample_config 1 sample_state) 8 = eeprom sample_state 8"
    by simp
  moreover
  from frame [THEN conjunct2, THEN conjunct2, THEN conjunct2, THEN conjunct2, rule_format, of 0]
  have "getSimpleScheduleOn sample_config (snd (setSimpleSchedule sample_config 600 1 sample_state)) 0
          = getSimpleScheduleOn sample_config sample_state 0
        \<and> getSimpleScheduleOn sample_config (clearSimpleSchedule sample_config 1 sample_state) 0
          = getSimpleScheduleOn sample_config sample_state 0"
    by simp
  ultimately show ?thesis
    using changed by (simp add: schedule_address_def sample_config_def)
qed

text \<open>
  C2 (amended): in a well-formed configuration, for every slot \<open>k\<close> below
  \<open>MAX_SIMPLE_SCHEDULES\<close> and every \<open>m\<close> in \<open>[0, MINS_PER_DAY)\<close>,
  \<open>setSimpleSchedule(m, k)\<close> followed by \<open>getSimpleScheduleOn(k)\<close> returns \<open>m\<close>
  rounded down to the granularity, minus \<open>PREWARM_MINS\<close> and wrapped forward by
  \<open>MINS_PER_DAY\<close> if the subtraction would go negative, when the build defines
  \<open>LEARN_BUTTON_AVAILABLE\<close>; a build without it returns \<open>m\<close> rounded down to the
  granularity, with no pre-warm offset.
\<close>

theorem setSimpleSchedule_then_getSimpleScheduleOn:
  assumes v: "valid_config cfg"
    and k: "k < MAX_SIMPLE_SCHEDULES cfg"
    and m: "unat m < MINS_PER_DAY"
  shows "(LEARN_BUTTON_AVAILABLE cfg \<longrightarrow>
            unat (getSimpleScheduleOn cfg (snd (setSimpleSchedule cfg m k st)) k) =
              (if unat (PREWARM_MINS cfg)
                    > unat m div SIMPLE_SCHEDULE_GRANULARITY_MINS cfg
                        * SIMPLE_SCHEDULE_GRANULARITY_MINS cfg
               then unat m div SIMPLE_SCHEDULE_GRANULARITY_MINS cfg
                      * SIMPLE_SCHEDULE_GRANULARITY_MINS cfg
                    + MINS_PER_DAY - unat (PREWARM_MINS cfg)
               else unat m div SIMPLE_SCHEDULE_GRANULARITY_MINS cfg
                      * SIMPLE_SCHEDULE_GRANULARITY_MINS cfg
                    - unat (PREWARM_MINS cfg)))
       \<and> (\<not> LEARN_BUTTON_AVAILABLE cfg \<longrightarrow>
            unat (getSimpleScheduleOn cfg (snd (setSimpleSchedule cfg m k st)) k) =
              unat m div SIMPLE_SCHEDULE_GRANULARITY_MINS cfg
                * SIMPLE_SCHEDULE_GRANULARITY_MINS cfg)"
proof -
  define b :: uint8_t where
    "b = word_of_nat (unat m div SIMPLE_SCHEDULE_GRANULARITY_MINS cfg)"
  define st' where "st' = snd (setSimpleSchedule cfg m k st)"
  have stored: "eeprom st' (schedule_address cfg k) = b"
    by (simp add: st'_def b_def setSimpleSchedule_accepted [OF k m]
        eeprom_smart_update_byte_eeprom)
  have ub: "unat b = unat m div SIMPLE_SCHEDULE_GRANULARITY_MINS cfg"
    unfolding b_def by (rule unat_compressed [OF v m])
  have "b \<le> MAX_COMPRESSED_MINS_AFTER_MIDNIGHT cfg"
    unfolding b_def by (rule compressed_le_MAX_COMPRESSED [OF v m])
  with stored
  have "eeprom st' (schedule_address cfg k) \<le> MAX_COMPRESSED_MINS_AFTER_MIDNIGHT cfg"
    by simp
  from unat_getSimpleScheduleOn [OF v k this]
  have "unat (getSimpleScheduleOn cfg st' k) =
          (if LEARN_BUTTON_AVAILABLE cfg
           then windBack (SIMPLE_SCHEDULE_GRANULARITY_MINS cfg * unat b) (unat (PREWARM_MINS cfg))
           else SIMPLE_SCHEDULE_GRANULARITY_MINS cfg * unat b)"
    by (simp only: stored)
  then show ?thesis
    unfolding st'_def [symmetric]
    by (simp add: ub windBack_def mult.commute)
qed

theorem setSimpleSchedule_then_getSimpleScheduleOn_witness:
  "valid_config sample_config
   \<and> (1 :: uint8_t) < MAX_SIMPLE_SCHEDULES sample_config
   \<and> unat (20 :: uint_least16_t) < MINS_PER_DAY
   \<and> LEARN_BUTTON_AVAILABLE sample_config
   \<and> unat (PREWARM_MINS sample_config) = 36
   \<and> unat (getSimpleScheduleOn sample_config
              (snd (setSimpleSchedule sample_config 20 1 erased_state)) 1) = 1422
   \<and> valid_config sample_config_no_learn_button
   \<and> (1 :: uint8_t) < MAX_SIMPLE_SCHEDULES sample_config_no_learn_button
   \<and> \<not> LEARN_BUTTON_AVAILABLE sample_config_no_learn_button
   \<and> unat (getSimpleScheduleOn sample_config_no_learn_button
              (snd (setSimpleSchedule sample_config_no_learn_button 20 1 erased_state)) 1) = 18"
proof -
  have v: "valid_config sample_config" "valid_config sample_config_no_learn_button"
    by (simp_all add: valid_config_def sample_config_no_learn_button_def sample_config_def
        MINS_PER_DAY_def)
  have k: "(1 :: uint8_t) < MAX_SIMPLE_SCHEDULES sample_config"
    "(1 :: uint8_t) < MAX_SIMPLE_SCHEDULES sample_config_no_learn_button"
    by (simp_all add: sample_config_no_learn_button_def sample_config_def)
  have m: "unat (20 :: uint_least16_t) < MINS_PER_DAY"
    by (simp add: MINS_PER_DAY_def)
  have learn: "LEARN_BUTTON_AVAILABLE sample_config"
    "\<not> LEARN_BUTTON_AVAILABLE sample_config_no_learn_button"
    by (simp_all add: sample_config_no_learn_button_def sample_config_def)
  have p: "unat (PREWARM_MINS sample_config) = 36"
    by (simp add: PREWARM_MINS_def sample_config_def)
  have g: "SIMPLE_SCHEDULE_GRANULARITY_MINS sample_config = 6"
    "SIMPLE_SCHEDULE_GRANULARITY_MINS sample_config_no_learn_button = 6"
    by (simp_all add: sample_config_no_learn_button_def sample_config_def)
  from setSimpleSchedule_then_getSimpleScheduleOn [OF v(1) k(1) m, of erased_state] learn(1)
  have "unat (getSimpleScheduleOn sample_config
                (snd (setSimpleSchedule sample_config 20 1 erased_state)) 1) = 1422"
    by (simp add: p g MINS_PER_DAY_def)
  moreover
  from setSimpleSchedule_then_getSimpleScheduleOn [OF v(2) k(2) m, of erased_state] learn(2)
  have "unat (getSimpleScheduleOn sample_config_no_learn_button
                (snd (setSimpleSchedule sample_config_no_learn_button 20 1 erased_state)) 1) = 18"
    by (simp add: g)
  ultimately show ?thesis
    using v k m learn p by simp
qed

text \<open>
  The claim C2 as first stated subtracts \<open>PREWARM_MINS\<close> in every build. In the
  sample configuration without \<open>LEARN_BUTTON_AVAILABLE\<close>, setting slot 0 to 100 and
  reading it back gives 96, not \<open>96 - 36 = 60\<close>.
\<close>

theorem without_learn_button_on_time_is_anchor:
  "valid_config sample_config_no_learn_button
   \<and> (0 :: uint8_t) < MAX_SIMPLE_SCHEDULES sample_config_no_learn_button
   \<and> unat (100 :: uint_least16_t) < MINS_PER_DAY
   \<and> unat (100 :: uint_least16_t) div SIMPLE_SCHEDULE_GRANULARITY_MINS sample_config_no_learn_button
         * SIMPLE_SCHEDULE_GRANULARITY_MINS sample_config_no_learn_button
       - unat (PREWARM_MINS sample_config_no_learn_button) = 60
   \<and> getSimpleScheduleOn sample_config_no_learn_button
         (snd (setSimpleSchedule sample_config_no_learn_button 100 0 erased_state)) 0 = 96
   \<and> getSimpleScheduleOn sample_config_no_learn_button
         (snd (setSimpleSchedule sample_config_no_learn_button 100 0 erased_state)) 0 \<noteq> 60"
proof -
  have "getSimpleScheduleOn sample_config_no_learn_button
         (snd (setSimpleSchedule sample_config_no_learn_button 100 0 erased_state)) 0 = 96"
    by code_simp
  then show ?thesis
    by (simp add: valid_config_def sample_config_no_learn_button_def sample_config_def
        MINS_PER_DAY_def PREWARM_MINS_def)
qed

text \<open>
  C3 (amended): in a well-formed configuration, for a slot whose stored byte decodes
  to the anchor \<open>a\<close>, a build with \<open>LEARN_BUTTON_AVAILABLE\<close> returns
  \<open>(a - PREWARM_MINS) mod MINS_PER_DAY\<close> from \<open>getSimpleScheduleOn\<close> and never goes
  negative: \<open>a + MINS_PER_DAY - PREWARM_MINS\<close> when \<open>PREWARM_MINS > a\<close>, and
  \<open>a - PREWARM_MINS\<close> otherwise. An anchor of 1430 with a pre-warm of 40 needs no
  wrap and gives 1390; the wrap is for anchors early in the day, such as 10, which
  gives 1410. A build without \<open>LEARN_BUTTON_AVAILABLE\<close> returns the anchor itself.
\<close>

theorem getSimpleScheduleOn_wind_back:
  assumes v: "valid_config cfg"
    and w: "which < MAX_SIMPLE_SCHEDULES cfg"
    and b: "eeprom st (schedule_address cfg which) \<le> MAX_COMPRESSED_MINS_AFTER_MIDNIGHT cfg"
  shows "(LEARN_BUTTON_AVAILABLE cfg \<longrightarrow>
            (unat (PREWARM_MINS cfg)
               > SIMPLE_SCHEDULE_GRANULARITY_MINS cfg * unat (eeprom st (schedule_address cfg which))
             \<longrightarrow> unat (getSimpleScheduleOn cfg st which) =
                   SIMPLE_SCHEDULE_GRANULARITY_MINS cfg * unat (eeprom st (schedule_address cfg which))
                   + MINS_PER_DAY - unat (PREWARM_MINS cfg))
          \<and> (unat (PREWARM_MINS cfg)
               \<le> SIMPLE_SCHEDULE_GRANULARITY_MINS cfg * unat (eeprom st (schedule_address cfg which))
             \<longrightarrow> unat (getSimpleScheduleOn cfg st which) =
                   SIMPLE_SCHEDULE_GRANULARITY_MINS cfg * unat (eeprom st (schedule_address cfg which))
                   - unat (PREWARM_MINS cfg))
          \<and> int (unat (getSimpleScheduleOn cfg st which)) =
              (int (SIMPLE_SCHEDULE_GRANULARITY_MINS cfg
                      * unat (eeprom st (schedule_address cfg which)))
                 - int (unat (PREWARM_MINS cfg))) mod int MINS_PER_DAY)
       \<and> (\<not> LEARN_BUTTON_AVAILABLE cfg \<longrightarrow>
            unat (getSimpleScheduleOn cfg st which) =
              SIMPLE_SCHEDULE_GRANULARITY_MINS cfg * unat (eeprom st (schedule_address cfg which)))"
proof -
  define a where
    "a = SIMPLE_SCHEDULE_GRANULARITY_MINS cfg * unat (eeprom st (schedule_address cfg which))"
  define p where "p = unat (PREWARM_MINS cfg)"
  from anchor_bound [OF v b] v have a: "a < MINS_PER_DAY"
    by (simp add: valid_config_def a_def)
  have p: "p \<le> 255"
    unfolding p_def by (rule unat_byte_le)
  have on: "unat (getSimpleScheduleOn cfg st which) =
              (if LEARN_BUTTON_AVAILABLE cfg then windBack a p else a)"
    unfolding a_def p_def by (rule unat_getSimpleScheduleOn [OF v w b])
  have "int (windBack a p) = (int a - int p) mod int MINS_PER_DAY"
    using a p by (rule windBack_mod)
  moreover have "p > a \<longrightarrow> windBack a p = a + MINS_PER_DAY - p"
    and "p \<le> a \<longrightarrow> windBack a p = a - p"
    by (simp_all add: windBack_def)
  ultimately show ?thesis
    unfolding a_def [symmetric] p_def [symmetric] on by simp
qed

theorem getSimpleScheduleOn_wind_back_witness:
  "valid_config prewarm40_config
   \<and> (0 :: uint8_t) < MAX_SIMPLE_SCHEDULES prewarm40_config
   \<and> LEARN_BUTTON_AVAILABLE prewarm40_config
   \<and> unat (PREWARM_MINS prewarm40_config) = 40
   \<and> eeprom (snd (setSimpleSchedule prewarm40_config 10 0 erased_state))
        (schedule_address prewarm40_config 0) = 1
   \<and> (1 :: uint8_t) \<le> MAX_COMPRESSED_MINS_AFTER_MIDNIGHT prewarm40_config
   \<and> unat (getSimpleScheduleOn prewarm40_config
              (snd (setSimpleSchedule prewarm40_config 10 0 erased_state)) 0) = 1410
   \<and> eeprom (snd (setSimpleSchedule prewarm40_config 1430 0 erased_state))
        (schedule_address prewarm40_config 0) = 143
   \<and> (143 :: uint8_t) \<le> MAX_COMPRESSED_MINS_AFTER_MIDNIGHT prewarm40_config
   \<and> unat (getSimpleScheduleOn prewarm40_config
              (snd (setSimpleSchedule prewarm40_config 1430 0 erased_state)) 0) = 1390"
proof -
  have v: "valid_config prewarm40_config"
    by (simp add: valid_config_def prewarm40_config_def MINS_PER_DAY_def)
  have w: "(0 :: uint8_t) < MAX_SIMPLE_SCHEDULES prewarm40_config"
    by (simp add: prewarm40_config_def)
  have learn: "LEARN_BUTTON_AVAILABLE prewarm40_config"
    by (simp add: prewarm40_config_def)
  have g: "SIMPLE_SCHEDULE_GRANULARITY_MINS prewarm40_config = 10"
    by (simp add: prewarm40_config_def)
  have p: "unat (PREWARM_MINS prewarm40_config) = 40"
    by (simp add: PREWARM_MINS_def prewarm40_config_def)
  have early: "eeprom (snd (setSimpleSchedule prewarm40_config 10 0 erased_state))
                 (schedule_address prewarm40_config 0) = 1"
    by code_simp
  have late: "eeprom (snd (setSimpleSchedule prewarm40_config 1430 0 erased_state))
                (schedule_address prewarm40_config 0) = 143"
    by code_simp
  have le: "(1 :: uint8_t) \<le> MAX_COMPRESSED_MINS_AFTER_MIDNIGHT prewarm40_config"
    "(143 :: uint8_t) \<le> MAX_COMPRESSED_MINS_AFTER_MIDNIGHT prewarm40_config"
    by (simp_all add: MAX_COMPRESSED_MINS_AFTER_MIDNIGHT_def MINS_PER_DAY_def
        prewarm40_config_def)
  from le(1) have b_early:
    "eeprom (snd (setSimpleSchedule prewarm40_config 10 0 erased_state))
       (schedule_address prewarm40_config 0) \<le> MAX_COMPRESSED_MINS_AFTER_MIDNIGHT prewarm40_config"
    by (simp only: early)
  from le(2) have b_late:
    "eeprom (snd (setSimpleSchedule prewarm40_config 1430 0 erased_state))
       (schedule_address prewarm40_config 0) \<le> MAX_COMPRESSED_MINS_AFTER_MIDNIGHT prewarm40_config"
    by (simp only: late)
  from getSimpleScheduleOn_wind_back [OF v w b_early] learn
  have "unat (getSimpleScheduleOn prewarm40_config
                (snd (setSimpleSchedule prewarm40_config 10 0 erased_state)) 0) = 1410"
    by (simp add: early g p MINS_PER_DAY_def)
  moreover
  from getSimpleScheduleOn_wind_back [OF v w b_late] learn
  have "unat (getSimpleScheduleOn prewarm40_config
                (snd (setSimpleSchedule prewarm40_config 1430 0 erased_state)) 0) = 1390"
    by (simp add: late g p MINS_PER_DAY_def)
  ultimately show ?thesis
    using v w learn p early late le by simp
qed

text \<open>
  The claim C3 as first stated gives 10 for an anchor of 1430 with a pre-warm of 40.
  With granularity 10 and a learned on period of 60 the pre-warm is 40 and the stored
  byte 143 decodes to 1430: \<open>getSimpleScheduleOn\<close> returns 1390. Stated for every
  build, the wrap also fails without \<open>LEARN_BUTTON_AVAILABLE\<close>: the anchor 6 is below
  the pre-warm 36 of the sample configuration and is returned as it is.
\<close>

theorem anchor_1430_prewarm_40_on_time:
  "unat (PREWARM_MINS prewarm40_config) = 40
   \<and> SIMPLE_SCHEDULE_GRANULARITY_MINS prewarm40_config
       * unat (eeprom (snd (setSimpleSchedule prewarm40_config 1430 0 erased_state))
                 (schedule_address prewarm40_config 0)) = 1430
   \<and> getSimpleScheduleOn prewarm40_config
        (snd (setSimpleSchedule prewarm40_config 1430 0 erased_state)) 0 = 1390
   \<and> getSimpleScheduleOn prewarm40_config
        (snd (setSimpleSchedule prewarm40_config 1430 0 erased_state)) 0 \<noteq> 10
   \<and> unat (PREWARM_MINS sample_config_no_learn_button) = 36
   \<and> SIMPLE_SCHEDULE_GRANULARITY_MINS sample_config_no_learn_button
       * unat (eeprom (snd (setSimpleSchedule sample_config_no_learn_button 6 0 erased_state))
                 (schedule_address sample_config_no_learn_button 0)) = 6
   \<and> getSimpleScheduleOn sample_config_no_learn_button
        (snd (setSimpleSchedule sample_config_no_learn_button 6 0 erased_state)) 0 = 6
   \<and> getSimpleScheduleOn sample_config_no_learn_button
        (snd (setSimpleSchedule sample_config_no_learn_button 6 0 erased_state)) 0
       \<noteq> 6 + 1440 - 36"
proof -
  have "eeprom (snd (setSimpleSchedule prewarm40_config 1430 0 erased_state))
          (schedule_address prewarm40_config 0) = 143"
    by code_simp
  moreover
  have "eeprom (snd (setSimpleSchedule sample_config_no_learn_button 6 0 erased_state))
          (schedule_address sample_config_no_learn_button 0) = 1"
    by code_simp
  moreover
  have "getSimpleScheduleOn prewarm40_config
          (snd (setSimpleSchedule prewarm40_config 1430 0 erased_state)) 0 = 1390"
    by code_simp
  moreover
  have "getSimpleScheduleOn sample_config_no_learn_button
          (snd (setSimpleSchedule sample_config_no_learn_button 6 0 erased_state)) 0 = 6"
    by code_simp
  ultimately show ?thesis
    by (simp add: PREWARM_MINS_def prewarm40_config_def sample_config_no_learn_button_def
        sample_config_def)
qed

section \<open>Claims about the derived constants\<close>

text \<open>
  C8 (amended): \<open>PREWARM_MINS\<close> is the larger of 30 and the granularity plus half of
  \<open>LEARNED_ON_PERIOD_M\<close>, and \<open>PREPREWARM_MINS\<close> is three times the half of
  \<open>PREWARM_MINS\<close>, the halving done first and rounded down, as long as both fit their
  \<open>uint8_t\<close>. This is \<open>3 * PREWARM_MINS / 2\<close> when \<open>PREWARM_MINS\<close> is even, as for the
  36 and 54 minutes of the comments. Under the same condition
  \<open>PREPREWARM_MINS \<ge> PREWARM_MINS\<close>.
\<close>

theorem PREWARM_and_PREPREWARM_values:
  assumes fit: "3 * (max 30 (SIMPLE_SCHEDULE_GRANULARITY_MINS cfg
                               + LEARNED_ON_PERIOD_M cfg div 2) div 2) \<le> 255"
  shows "unat (PREWARM_MINS cfg) =
           max 30 (SIMPLE_SCHEDULE_GRANULARITY_MINS cfg + LEARNED_ON_PERIOD_M cfg div 2)
       \<and> unat (PREPREWARM_MINS cfg) = 3 * (unat (PREWARM_MINS cfg) div 2)
       \<and> (even (unat (PREWARM_MINS cfg))
            \<longrightarrow> unat (PREPREWARM_MINS cfg) = 3 * unat (PREWARM_MINS cfg) div 2)
       \<and> PREWARM_MINS cfg \<le> PREPREWARM_MINS cfg"
proof -
  define x where
    "x = max 30 (SIMPLE_SCHEDULE_GRANULARITY_MINS cfg + LEARNED_ON_PERIOD_M cfg div 2)"
  from fit have half: "3 * (x div 2) \<le> 255"
    by (simp only: x_def)
  then have "x < 256" by arith
  then have pw: "unat (PREWARM_MINS cfg) = x"
    unfolding PREWARM_MINS_def x_def [symmetric] by (rule unat_word8_of_nat)
  from half have "3 * (x div 2) < 256" by simp
  then have "unat (word_of_nat (3 * (x div 2)) :: uint8_t) = 3 * (x div 2)"
    by (rule unat_word8_of_nat)
  then have ppw: "unat (PREPREWARM_MINS cfg) = 3 * (x div 2)"
    by (simp only: PREPREWARM_MINS_def pw)
  have "30 \<le> x" by (simp add: x_def)
  then have "x \<le> 3 * (x div 2)" by arith
  then have le: "PREWARM_MINS cfg \<le> PREPREWARM_MINS cfg"
    by (simp only: word_le_nat_alt pw ppw)
  have "even x \<longrightarrow> 3 * (x div 2) = 3 * x div 2"
    by auto
  with pw ppw le show ?thesis
    unfolding x_def [symmetric] by simp
qed

theorem PREWARM_and_PREPREWARM_values_witness:
  "3 * (max 30 (SIMPLE_SCHEDULE_GRANULARITY_MINS sample_config
                  + LEARNED_ON_PERIOD_M sample_config div 2) div 2) \<le> 255
   \<and> unat (PREWARM_MINS sample_config) = 36
   \<and> even (unat (PREWARM_MINS sample_config))
   \<and> unat (PREPREWARM_MINS sample_config) = 54
   \<and> PREWARM_MINS sample_config \<le> PREPREWARM_MINS sample_config"
proof -
  have fit: "3 * (max 30 (SIMPLE_SCHEDULE_GRANULARITY_MINS sample_config
                            + LEARNED_ON_PERIOD_M sample_config div 2) div 2) \<le> 255"
    by (simp add: sample_config_def)
  have x: "max 30 (SIMPLE_SCHEDULE_GRANULARITY_MINS sample_config
                     + LEARNED_ON_PERIOD_M sample_config div 2) = (36 :: nat)"
    by (simp add: sample_config_def)
  note derived = PREWARM_and_PREPREWARM_values [OF fit]
  from derived [THEN conjunct1] x
  have pw: "unat (PREWARM_MINS sample_config) = 36"
    by simp
  from derived [THEN conjunct2, THEN conjunct1] pw
  have ppw: "unat (PREPREWARM_MINS sample_config) = 54"
    by simp
  from derived [THEN conjunct2, THEN conjunct2, THEN conjunct2]
  have "PREWARM_MINS sample_config \<le> PREPREWARM_MINS sample_config" .
  with fit pw ppw show ?thesis
    by simp
qed

text \<open>
  The claim C8 as first stated has \<open>PREPREWARM_MINS = 3 * PREWARM_MINS / 2\<close>. With a
  learned on period of 50 minutes \<open>PREWARM_MINS\<close> is 31 and \<open>PREPREWARM_MINS\<close> is
  \<open>3 * (31 / 2) = 45\<close>, whereas \<open>3 * 31 / 2 = 46\<close>.
\<close>

theorem PREPREWARM_of_odd_PREWARM:
  "unat (PREWARM_MINS odd_prewarm_config) = 31
   \<and> unat (PREPREWARM_MINS odd_prewarm_config) = 45
   \<and> 3 * unat (PREWARM_MINS odd_prewarm_config) div 2 = 46
   \<and> unat (PREPREWARM_MINS odd_prewarm_config)
       \<noteq> 3 * unat (PREWARM_MINS odd_prewarm_config) div 2"
proof -
  have "unat (PREWARM_MINS odd_prewarm_config) = 31"
    by (simp add: PREWARM_MINS_def odd_prewarm_config_def sample_config_def)
  then show ?thesis
    by (simp add: PREPREWARM_MINS_def)
qed

section \<open>Claims about the queries\<close>

text \<open>
  C7: when the unit-test override is set, the three queries return fixed answers
  whatever the EEPROM holds and whatever the time and policy are: override off gives
  (\<open>isAnySimpleScheduleSet\<close>, \<open>isAnyScheduleOnWARMNow\<close>, \<open>isAnyScheduleOnWARMSoon\<close>)
  = (false, false, false), override soon gives (true, false, true) and override now
  gives (true, true, false).
\<close>

theorem schedule_override_answers:
  "isAnySimpleScheduleSet cfg (TEST_set_schedule_override soUT_off st) = False
   \<and> isAnyScheduleOnWARMNow cfg ev (TEST_set_schedule_override soUT_off st) = False
   \<and> isAnyScheduleOnWARMSoon cfg ev (TEST_set_schedule_override soUT_off st) = False
   \<and> isAnySimpleScheduleSet cfg (TEST_set_schedule_override soUT_soon st) = True
   \<and> isAnyScheduleOnWARMNow cfg ev (TEST_set_schedule_override soUT_soon st) = False
   \<and> isAnyScheduleOnWARMSoon cfg ev (TEST_set_schedule_override soUT_soon st) = True
   \<and> isAnySimpleScheduleSet cfg (TEST_set_schedule_override soUT_now st) = True
   \<and> isAnyScheduleOnWARMNow cfg ev (TEST_set_schedule_override soUT_now st) = True
   \<and> isAnyScheduleOnWARMSoon cfg ev (TEST_set_schedule_override soUT_now st) = False"
  by (simp add: TEST_set_schedule_override_def isAnySimpleScheduleSet_def
      isAnyScheduleOnWARMNow_def isAnyScheduleOnWARMSoon_def)

text \<open>
  The loop of \<open>isAnyScheduleOnWARMNow\<close> skips a slot as soon as the time is before
  the slot's on time, before it looks at the off time. So a time before every on time
  is never WARM, also when it lies in the part after midnight of a period that began
  the evening before.
\<close>

lemma isAnyScheduleOnWARMNow_loop_before_on:
  assumes "\<forall>w. mm < getSimpleScheduleOn cfg st w"
  shows "isAnyScheduleOnWARMNow_loop cfg ev st mm which = False"
  using assms
proof (induction cfg ev st mm which rule: isAnyScheduleOnWARMNow_loop.induct)
  case (1 cfg ev st mm which)
  show ?case
  proof (cases "which < MAX_SIMPLE_SCHEDULES cfg")
    case True
    from "1.prems" have skip: "mm < getSimpleScheduleOn cfg st which"
      by blast
    have "isAnyScheduleOnWARMNow_loop cfg ev st mm (which + 1) = False"
      by (rule "1.IH"(1) [OF True refl skip "1.prems"])
    with True skip show ?thesis
      by (subst isAnyScheduleOnWARMNow_loop.simps) simp
  next
    case False
    then show ?thesis
      by (subst isAnyScheduleOnWARMNow_loop.simps) simp
  qed
qed

text \<open>
  C1: for a slot whose effective on time is 1430 and effective off time is 30, that
  is a WARM period across midnight, and no override, \<open>isAnyScheduleOnWARMNow\<close> should
  return true at 1435 and at 10 minutes after midnight, and false at 100. Evaluated on
  such a slot the function returns true at 1435 and false at 100, and false at 10 as
  well: 10 is before the on time 1430, so the slot is skipped.
\<close>

theorem isAnyScheduleOnWARMNow_across_midnight:
  "soUT_override wrap_state = soUT_normal
   \<and> getSimpleScheduleOn wrap_config wrap_state 0 = 1430
   \<and> getSimpleScheduleOff wrap_config (sample_env 10) wrap_state 0 = 30
   \<and> isAnyScheduleOnWARMNow wrap_config (sample_env 1435) wrap_state = True
   \<and> isAnyScheduleOnWARMNow wrap_config (sample_env 10) wrap_state = False
   \<and> isAnyScheduleOnWARMNow wrap_config (sample_env 100) wrap_state = False"
  by code_simp

text \<open>
  The same with granularity 6 and a learned on period of 60: a schedule set for
  midnight is on from 1404, and ten minutes after midnight it is reported as not on.
\<close>

lemma isAnyScheduleOnWARMNow_sample_after_midnight:
  "getSimpleScheduleOn sample_config sample_state 0 = 1404
   \<and> getSimpleScheduleOff sample_config (sample_env 10) sample_state 0 = 90
   \<and> isAnyScheduleOnWARMNow sample_config (sample_env 1410) sample_state = True
   \<and> isAnyScheduleOnWARMNow sample_config (sample_env 10) sample_state = False"
  by code_simp

end
